theory Spec2Isabelle
  imports Main "HOL-Library.Word"
begin

section \<open>The web client\<close>

subsection \<open>JavaScript strings\<close>

text \<open>
  A JavaScript string is a sequence of UTF-16 code units. \<open>String.prototype.trim\<close>
  removes, from both ends, the code units that ECMAScript calls WhiteSpace or
  LineTerminator; all of them lie in the Basic Multilingual Plane, so the test works on
  single code units.
\<close>

type_synonym jsstring = "16 word list"

definition is_js_whitespace :: "16 word \<Rightarrow> bool" where
  "is_js_whitespace c \<longleftrightarrow>
     c \<in> set [0x0009, 0x000A, 0x000B, 0x000C, 0x000D, 0x0020, 0x00A0, 0x1680,
               0x2000, 0x2001, 0x2002, 0x2003, 0x2004, 0x2005, 0x2006, 0x2007,
               0x2008, 0x2009, 0x200A, 0x2028, 0x2029, 0x202F, 0x205F, 0x3000, 0xFEFF]"

definition trim :: "jsstring \<Rightarrow> jsstring" where
  "trim s = rev (dropWhile is_js_whitespace (rev (dropWhile is_js_whitespace s)))"

text \<open>String literals of the sources are ASCII; \<open>js_of\<close> writes them as code units.\<close>

definition js_of :: "string \<Rightarrow> jsstring" where
  "js_of s = map (\<lambda>c. of_nat (of_char c)) s"

subsection \<open>types.ts\<close>

text \<open>
  A JavaScript number is an IEEE double. The client never computes with the page of a
  source in the code modelled here, so the type of numbers is left abstract; \<open>null\<close> is
  \<open>None\<close>.
\<close>

typedecl js_number

record Source =
  document :: jsstring
  page :: "js_number option"
  content_snippet :: jsstring

record ChatResponse =
  answer :: jsstring
  sources :: "Source list"
  model :: jsstring

datatype Role = User | Assistant

text \<open>
  The optional fields \<open>sources?\<close>, \<open>isLoading?\<close> and \<open>isError?\<close> are \<open>None\<close> when
  the object literal leaves them out. The field \<open>id\<close> is \<open>msg_id\<close> and \<open>sources\<close> is
  \<open>msg_sources\<close> here, the plain names being taken.
\<close>

record ChatMessage =
  msg_id :: jsstring
  role :: Role
  content :: jsstring
  msg_sources :: "Source list option"
  isLoading :: "bool option"
  isError :: "bool option"

subsection \<open>ChatInput: handleSubmit\<close>

text \<open>
  \<open>handleSubmit\<close> reads the component's \<open>input\<close> state and its \<open>disabled\<close> prop. Its
  effects are the call of \<open>onSend\<close> (\<open>Some\<close> of the argument, \<open>None\<close> when it returns
  early) and the new \<open>input\<close> state. The empty string is the only falsy string.
\<close>

definition handleSubmit :: "jsstring \<Rightarrow> bool \<Rightarrow> jsstring option \<times> jsstring" where
  "handleSubmit input disabled =
     (let trimmed = trim input in
      if trimmed = [] \<or> disabled then (None, input)
      else (Some trimmed, []))"

definition canSend :: "jsstring \<Rightarrow> bool \<Rightarrow> bool" where
  "canSend input disabled \<longleftrightarrow> length (trim input) > 0 \<and> \<not> disabled"

subsection \<open>api.ts: sendMessage\<close>

text \<open>
  What \<open>fetch\<close> and the reading of the body can do: the promise of \<open>fetch\<close> rejects
  (\<open>NetworkError\<close>); the response is not ok, and \<open>error.detail\<close> of its body is the
  given string, or undefined when the body does not parse (\<open>HttpError\<close>); the response is
  ok, and \<open>response.json()\<close> gives a \<open>ChatResponse\<close>, or rejects (\<open>HttpOk None\<close>).
\<close>

datatype fetch_result =
    NetworkError
  | HttpError "jsstring option"
  | HttpOk "ChatResponse option"

datatype js_error = FetchRejected | Error jsstring | JsonRejected

definition sendMessage :: "(jsstring \<Rightarrow> fetch_result) \<Rightarrow> jsstring \<Rightarrow> js_error + ChatResponse" where
  "sendMessage fetch question =
     (case fetch question of
        NetworkError \<Rightarrow> Inl FetchRejected
      | HttpError d \<Rightarrow>
          Inl (Error (case d of
                        None \<Rightarrow> js_of ''Gagal mengirim pertanyaan''
                      | Some s \<Rightarrow> if s = [] then js_of ''Gagal mengirim pertanyaan'' else s))
      | HttpOk None \<Rightarrow> Inl JsonRejected
      | HttpOk (Some r) \<Rightarrow> Inr r)"

subsection \<open>App: handleSend\<close>

definition userMessage :: "jsstring \<Rightarrow> jsstring \<Rightarrow> ChatMessage" where
  "userMessage uid question =
     \<lparr>msg_id = uid, role = User, content = question,
      msg_sources = None, isLoading = None, isError = None\<rparr>"

definition loadingMessage :: "jsstring \<Rightarrow> ChatMessage" where
  "loadingMessage lid =
     \<lparr>msg_id = lid, role = Assistant, content = [],
      msg_sources = None, isLoading = Some True, isError = None\<rparr>"

definition assistantMessage :: "jsstring \<Rightarrow> ChatResponse \<Rightarrow> ChatMessage" where
  "assistantMessage lid response =
     \<lparr>msg_id = lid, role = Assistant, content = answer response,
      msg_sources = Some (sources response), isLoading = None, isError = None\<rparr>"

definition errorMessage :: "jsstring \<Rightarrow> ChatMessage" where
  "errorMessage lid =
     \<lparr>msg_id = lid, role = Assistant,
      content = js_of ''Gagal mengirim pertanyaan. Silakan coba lagi.'',
      msg_sources = None, isLoading = None, isError = Some True\<rparr>"

text \<open>
  The component's state. \<open>handleSend\<close> is asynchronous: it updates the state once before
  the request (\<open>handleSend_request\<close>) and once when the request settles
  (\<open>handleSend_settle\<close>), each time through a functional update of whatever the state is
  then. The two identifiers are the results of \<open>crypto.randomUUID()\<close>.
\<close>

record AppState =
  messages :: "ChatMessage list"
  loading :: bool

definition settled :: "jsstring \<Rightarrow> js_error + ChatResponse \<Rightarrow> ChatMessage" where
  "settled lid r = (case r of Inr response \<Rightarrow> assistantMessage lid response
                            | Inl e \<Rightarrow> errorMessage lid)"

definition handleSend_request :: "jsstring \<Rightarrow> jsstring \<Rightarrow> jsstring \<Rightarrow> AppState \<Rightarrow> AppState" where
  "handleSend_request uid lid question st =
     st\<lparr>messages := messages st @ [userMessage uid question, loadingMessage lid],
        loading := True\<rparr>"

definition handleSend_settle :: "jsstring \<Rightarrow> js_error + ChatResponse \<Rightarrow> AppState \<Rightarrow> AppState" where
  "handleSend_settle lid r st =
     st\<lparr>messages := map (\<lambda>msg. if msg_id msg = lid then settled lid r else msg) (messages st),
        loading := False\<rparr>"

definition handleSend ::
  "(jsstring \<Rightarrow> fetch_result) \<Rightarrow> jsstring \<Rightarrow> jsstring \<Rightarrow> jsstring \<Rightarrow> AppState \<Rightarrow> AppState" where
  "handleSend fetch uid lid question st =
     handleSend_settle lid (sendMessage fetch question) (handleSend_request uid lid question st)"

subsection \<open>MessageBubble and ChatWindow\<close>

text \<open>
  What \<open>MessageBubble\<close> draws for a message: the typing indicator, the user's bubble,
  the error paragraph, or the answer paragraph together with the \<open>SourceCard\<close> of the
  message's sources when the message has any (\<open>message.sources &&\<close>; an array is
  truthy, \<open>undefined\<close> is not). The tests are made in the order of the component.
\<close>

datatype Bubble =
    LoadingBubble
  | UserBubble jsstring
  | ErrorBubble jsstring
  | AnswerBubble jsstring "Source list option"

definition MessageBubble :: "ChatMessage \<Rightarrow> Bubble" where
  "MessageBubble message =
     (if isLoading message = Some True then LoadingBubble
      else if role message = User then UserBubble (content message)
      else if isError message = Some True then ErrorBubble (content message)
      else AnswerBubble (content message) (msg_sources message))"

text \<open>
  \<open>ChatWindow\<close> shows the welcome screen for an empty list, and otherwise one
  \<open>MessageBubble\<close> per message, in the order of the list.
\<close>

datatype Window = Welcome | Bubbles "Bubble list"

definition ChatWindow :: "ChatMessage list \<Rightarrow> Window" where
  "ChatWindow msgs =
     (if length msgs = 0 then Welcome else Bubbles (map MessageBubble msgs))"

section \<open>The document-to-chunk pipeline\<close>

text \<open>
  The pipeline runs in the backend (\<open>app/services/document_processor.py\<close>, named in
  the project structure of \<open>README.md\<close>); that file is not among the repository's
  sources verified here. Its stages are modelled from the specification, sections 3, 4.3
  and 4.4, from the three concrete scenarios of section 8 and from the three steps of the
  custom document processor in \<open>README.md\<close>; every definition of this section says
  which sentence it follows. Texts are strings of characters, a line ends at the line
  feed.
\<close>

subsection \<open>Data model\<close>

text \<open>
  Modelled from the spec: the records \<open>Page\<close> (also used for a filtered page, whose
  index is kept), \<open>MergedBlock\<close> and \<open>Chunk\<close> of section 3. The fields \<open>text\<close> are
  \<open>block_text\<close> and \<open>chunk_text\<close>, and the chunk's \<open>page\<close> is \<open>chunk_page\<close>.
\<close>

record Page =
  index :: nat
  raw_text :: string

record MergedBlock =
  primary_page_index :: nat
  block_text :: string
  merged_from :: "nat list"

record Chunk =
  chunk_text :: string
  article_context :: "string option"
  clause_number :: "nat option"
  chunk_page :: nat
  source_document :: string
  merged_page_indices :: "nat list"

subsection \<open>Lines and patterns\<close>

text \<open>Modelled from the spec: the white space that trimming removes (4.4, step 3).\<close>

definition is_space :: "char \<Rightarrow> bool" where
  "is_space c \<longleftrightarrow> c \<in> set [CHR '' '', CHR 0x09, CHR 0x0A, CHR 0x0B, CHR 0x0C, CHR 0x0D]"

text \<open>Modelled from the spec: trimming white space at both ends (4.4, step 3).\<close>

definition strip :: "string \<Rightarrow> string" where
  "strip s = rev (dropWhile is_space (rev (dropWhile is_space s)))"

text \<open>Modelled from the spec: the lines of a text; a split point is the line feed.\<close>

fun split_lines :: "string \<Rightarrow> string list" where
  "split_lines [] = [[]]"
| "split_lines (c # cs) =
     (if c = CHR 0x0A then [] # split_lines cs
      else (case split_lines cs of [] \<Rightarrow> [[c]] | l # ls \<Rightarrow> (c # l) # ls))"

text \<open>Modelled from the spec: the text of a segment, its lines put together again.\<close>

fun join_lines :: "string list \<Rightarrow> string" where
  "join_lines [] = []"
| "join_lines [l] = l"
| "join_lines (l # ls) = l @ CHR 0x0A # join_lines ls"

definition is_digit :: "char \<Rightarrow> bool" where
  "is_digit c \<longleftrightarrow> c \<in> set ''0123456789''"

definition is_upper :: "char \<Rightarrow> bool" where
  "is_upper c \<longleftrightarrow> c \<in> set ''ABCDEFGHIJKLMNOPQRSTUVWXYZ''"

definition digits_value :: "string \<Rightarrow> nat" where
  "digits_value ds = foldl (\<lambda>n c. 10 * n + (of_char c - 48)) 0 ds"

text \<open>
  Modelled from the spec: the clause marker, a line matching \<open>^\(\d+\)\<close> (4.3). The
  result is the marker's integer value and the rest of the line.
\<close>

definition clause_marker :: "string \<Rightarrow> (nat \<times> string) option" where
  "clause_marker l =
     (case l of
        [] \<Rightarrow> None
      | c # cs \<Rightarrow>
          if c = CHR ''('' then
            (let ds = takeWhile is_digit cs; r = dropWhile is_digit cs in
             if ds \<noteq> [] \<and> r \<noteq> [] \<and> hd r = CHR '')'' then Some (digits_value ds, tl r)
             else None)
          else None)"

text \<open>
  Modelled from the spec: the article declaration, keyword plus number, optionally plus
  title (4.3); the keyword is \<open>Pasal\<close> (glossary). The label is the trimmed line, as in
  the scenario \<open>Pasal 14 Rencana Studi Semester\<close> of section 8.
\<close>

definition article_label :: "string \<Rightarrow> string option" where
  "article_label l =
     (if take 5 l = ''Pasal'' then
        (let r = drop 5 l; d = dropWhile (\<lambda>c. c = CHR '' '') r in
         if d \<noteq> r \<and> d \<noteq> [] \<and> is_digit (hd d) then Some (strip l) else None)
      else None)"

text \<open>
  Modelled from the spec: a section header, a line entirely of uppercase letters and
  spaces above a minimum length (4.3). The spec leaves the minimum open; it is the
  parameter \<open>min_len\<close> of everything that classifies.
\<close>

definition is_section_header :: "nat \<Rightarrow> string \<Rightarrow> bool" where
  "is_section_header min_len l \<longleftrightarrow>
     min_len \<le> length l \<and> list_all (\<lambda>c. is_upper c \<or> c = CHR '' '') l"

datatype LineClass = ArticleDeclaration | ClauseMarker | SectionHeader | Continuation

text \<open>
  Modelled from the spec: the classification of a line, the predicates tried in a fixed
  order and anything else a continuation (4.3, and the design note of section 9).
\<close>

definition classify :: "nat \<Rightarrow> string \<Rightarrow> LineClass" where
  "classify min_len l =
     (if article_label l \<noteq> None then ArticleDeclaration
      else if clause_marker l \<noteq> None then ClauseMarker
      else if is_section_header min_len l then SectionHeader
      else Continuation)"

subsection \<open>ContinuationMerger\<close>

text \<open>Modelled from the spec: the first non-empty line of a page (4.3).\<close>

definition first_non_empty_line :: "string \<Rightarrow> string option" where
  "first_non_empty_line t = find (\<lambda>l. strip l \<noteq> []) (split_lines t)"

text \<open>
  Modelled from the spec: a page is folded into the accumulating block when its first
  non-empty line is a continuation, and also when it has no non-empty line (4.3, edge
  case).
\<close>

definition is_continuation_page :: "nat \<Rightarrow> Page \<Rightarrow> bool" where
  "is_continuation_page min_len p =
     (case first_non_empty_line (raw_text p) of
        None \<Rightarrow> True
      | Some l \<Rightarrow> classify min_len (strip l) = Continuation)"

text \<open>Modelled from the spec: a new block starts at the current page (4.3).\<close>

definition new_block :: "Page \<Rightarrow> MergedBlock" where
  "new_block p = \<lparr>primary_page_index = index p, block_text = raw_text p, merged_from = []\<rparr>"

text \<open>
  Modelled from the spec: the page's text is appended to the accumulating block and its
  index recorded in \<open>merged_from\<close> (4.3). The texts are joined by one space, as the
  merging scenario of section 8 reads.
\<close>

definition absorb :: "MergedBlock \<Rightarrow> Page \<Rightarrow> MergedBlock" where
  "absorb b p = b\<lparr>block_text := block_text b @ '' '' @ raw_text p,
                  merged_from := merged_from b @ [index p]\<rparr>"

text \<open>
  Modelled from the spec: the scan of the filtered pages with an accumulating block; a
  page that is no continuation closes and emits the block, and the last block is emitted
  at the end of the sequence (4.3).
\<close>

fun merge_pages :: "nat \<Rightarrow> MergedBlock \<Rightarrow> Page list \<Rightarrow> MergedBlock list" where
  "merge_pages min_len b [] = [b]"
| "merge_pages min_len b (p # ps) =
     (if is_continuation_page min_len p then merge_pages min_len (absorb b p) ps
      else b # merge_pages min_len (new_block p) ps)"

text \<open>
  Modelled from the spec: the \<open>ContinuationMerger\<close> (4.3). The first page has no block
  to be folded into and starts the first block, whatever its first line.
\<close>

definition ContinuationMerger :: "nat \<Rightarrow> Page list \<Rightarrow> MergedBlock list" where
  "ContinuationMerger min_len pages =
     (case pages of [] \<Rightarrow> [] | p # ps \<Rightarrow> merge_pages min_len (new_block p) ps)"

text \<open>The page indices of a block in their order, the primary page first.\<close>

definition block_pages :: "MergedBlock \<Rightarrow> nat list" where
  "block_pages b = primary_page_index b # merged_from b"

text \<open>A list of indices in which each is the immediate successor of the one before.\<close>

fun consecutive :: "nat list \<Rightarrow> bool" where
  "consecutive [] = True"
| "consecutive [x] = True"
| "consecutive (x # y # ys) = (y = Suc x \<and> consecutive (y # ys))"

subsection \<open>HierarchicalChunker\<close>

text \<open>
  Modelled from the spec: one chunk per surviving segment; the segment is trimmed and
  discarded when it is empty then, and the chunk is stamped with the current article
  context, the block's primary page and its merged pages (4.4, steps 3 and 4).
\<close>

definition emit ::
  "string \<Rightarrow> MergedBlock \<Rightarrow> string option \<Rightarrow> nat option \<Rightarrow> string list \<Rightarrow> Chunk list" where
  "emit doc b ctx clause seg =
     (let t = strip (join_lines seg) in
      if t = [] then []
      else [\<lparr>chunk_text = t, article_context = ctx, clause_number = clause,
             chunk_page = primary_page_index b, source_document = doc,
             merged_page_indices = merged_from b\<rparr>])"

text \<open>
  Modelled from the spec: the split of a block's lines (4.4, steps 1 and 2). The
  arguments are the current article context, the clause number of the open segment and
  its lines so far. An article declaration line closes the open segment under the context
  that held before it, makes its label the context and opens a segment with no clause
  number; the declaration itself is no part of a segment (the two-clause scenario of
  section 8 yields two chunks). A clause marker at the start of a line closes the open
  segment and opens one with the marker's number, which begins with the rest of that line.
  The context switches at every declaration, as the spec asks implementers to support; the
  last declaration of the block is the context handed on.
\<close>

fun split_block ::
  "string \<Rightarrow> MergedBlock \<Rightarrow> string option \<Rightarrow> nat option \<Rightarrow> string list \<Rightarrow> string list
     \<Rightarrow> Chunk list \<times> string option" where
  "split_block doc b ctx clause seg [] = (emit doc b ctx clause seg, ctx)"
| "split_block doc b ctx clause seg (l # ls) =
     (case article_label l of
        Some lab \<Rightarrow>
          (let (cs, ctx') = split_block doc b (Some lab) None [] ls
           in (emit doc b ctx clause seg @ cs, ctx'))
      | None \<Rightarrow>
          (case clause_marker l of
             Some (n, rest) \<Rightarrow>
               (let (cs, ctx') = split_block doc b ctx (Some n) [rest] ls
                in (emit doc b ctx clause seg @ cs, ctx'))
           | None \<Rightarrow> split_block doc b ctx clause (seg @ [l]) ls))"

text \<open>Modelled from the spec: the chunks of one block and the context after it (4.4).\<close>

definition chunk_block ::
  "string \<Rightarrow> string option \<Rightarrow> MergedBlock \<Rightarrow> Chunk list \<times> string option" where
  "chunk_block doc ctx b = split_block doc b ctx None [] (split_lines (block_text b))"

text \<open>
  Modelled from the spec: the \<open>HierarchicalChunker\<close>, a fold over the blocks in order
  that threads the one current article context through the whole document (4.4, and the
  design note of section 9).
\<close>

fun HierarchicalChunker ::
  "string \<Rightarrow> string option \<Rightarrow> MergedBlock list \<Rightarrow> Chunk list \<times> string option" where
  "HierarchicalChunker doc ctx [] = ([], ctx)"
| "HierarchicalChunker doc ctx (b # bs) =
     (let (cs, ctx1) = chunk_block doc ctx b;
          (ds, ctx2) = HierarchicalChunker doc ctx1 bs
      in (cs @ ds, ctx2))"

text \<open>
  Modelled from the spec: the pipeline from the filtered pages of a document to its
  chunks (section 2); no article context holds at the start of a document.
\<close>

definition pipeline :: "nat \<Rightarrow> string \<Rightarrow> Page list \<Rightarrow> Chunk list" where
  "pipeline min_len doc pages =
     fst (HierarchicalChunker doc None (ContinuationMerger min_len pages))"

section \<open>Properties of the web client\<close>

subsection \<open>Trimming\<close>

text \<open>
  Dropping the characters of a kind at both ends leaves none of them at either end, and
  doing it twice is doing it once.
\<close>

lemma ends_hd:
  assumes "rev (dropWhile P (rev (dropWhile P s))) \<noteq> []"
  shows "\<not> P (hd (rev (dropWhile P (rev (dropWhile P s)))))"
proof -
  let ?t = "dropWhile P s"
  let ?u = "dropWhile P (rev ?t)"
  from assms have u: "?u \<noteq> []" by simp
  have t: "?t \<noteq> []"
  proof
    assume "?t = []"
    with u show False by (metis dropWhile.simps(1) rev.simps(1))
  qed
  have "hd (rev ?u) = last ?u" using u by (simp add: hd_rev)
  also have "\<dots> = last (rev ?t)"
  proof -
    from u obtain x where "x \<in> set (rev ?t)" "\<not> P x"
      by (metis dropWhile_eq_Nil_conv)
    then show ?thesis by (rule dropWhile_last)
  qed
  also have "\<dots> = hd ?t" using t by (simp add: last_rev)
  finally show ?thesis using hd_dropWhile[OF t] by simp
qed

lemma ends_last:
  assumes "rev (dropWhile P (rev (dropWhile P s))) \<noteq> []"
  shows "\<not> P (last (rev (dropWhile P (rev (dropWhile P s)))))"
proof -
  let ?u = "dropWhile P (rev (dropWhile P s))"
  from assms have u: "?u \<noteq> []" by simp
  have "last (rev ?u) = hd ?u" using u by (simp add: last_rev)
  then show ?thesis using hd_dropWhile[OF u] by simp
qed

lemma ends_idem:
  "rev (dropWhile P (rev (dropWhile P (rev (dropWhile P (rev (dropWhile P s))))))) =
   rev (dropWhile P (rev (dropWhile P s)))"
proof (cases "rev (dropWhile P (rev (dropWhile P s))) = []")
  case True
  then have E: "dropWhile P (rev (dropWhile P s)) = []" by (simp only: rev_is_Nil_conv)
  show ?thesis unfolding E by simp
next
  case False
  let ?r = "rev (dropWhile P (rev (dropWhile P s)))"
  have h: "\<not> P (hd ?r)" using False by (rule ends_hd)
  have l: "\<not> P (last ?r)" using False by (rule ends_last)
  have 1: "dropWhile P ?r = ?r"
    using h by (simp add: dropWhile_eq_self_iff)
  have 2: "dropWhile P (rev ?r) = rev ?r"
    using l False by (simp add: dropWhile_eq_self_iff hd_rev)
  show ?thesis
    unfolding 1 2 by simp
qed

lemma trim_hd: "trim s \<noteq> [] \<Longrightarrow> \<not> is_js_whitespace (hd (trim s))"
  unfolding trim_def by (rule ends_hd)

lemma trim_last: "trim s \<noteq> [] \<Longrightarrow> \<not> is_js_whitespace (last (trim s))"
  unfolding trim_def by (rule ends_last)

lemma trim_idem: "trim (trim s) = trim s"
  unfolding trim_def by (rule ends_idem)

subsection \<open>ChatInput\<close>

lemma handleSubmit_early_return:
  "trim input = [] \<or> disabled \<Longrightarrow> handleSubmit input disabled = (None, input)"
  by (simp add: handleSubmit_def)

lemma canSend_iff_onSend: "canSend input disabled \<longleftrightarrow> fst (handleSubmit input disabled) \<noteq> None"
  by (simp add: canSend_def handleSubmit_def Let_def)

text \<open>
  C9. On every submit, \<open>onSend\<close> is called if and only if the trimmed input is non-empty
  and the component is not disabled. When it is called, its argument is the trimmed input:
  not empty, with no white space at either end (trimming it again changes nothing), and
  the input state is the empty string afterwards.
\<close>

theorem handleSubmit_onSend:
  "(fst (handleSubmit input disabled) \<noteq> None \<longleftrightarrow> trim input \<noteq> [] \<and> \<not> disabled) \<and>
   (\<forall>arg. fst (handleSubmit input disabled) = Some arg \<longrightarrow>
      arg = trim input \<and> arg \<noteq> [] \<and> trim arg = arg \<and>
      \<not> is_js_whitespace (hd arg) \<and> \<not> is_js_whitespace (last arg) \<and>
      snd (handleSubmit input disabled) = [])"
  by (auto simp: handleSubmit_def Let_def trim_idem trim_hd trim_last)

theorem handleSubmit_onSend_witness:
  "handleSubmit (js_of ''  hi there '') False = (Some (js_of ''hi there''), [])"
  using handleSubmit_onSend [of "js_of ''  hi there ''" False]
  by (simp add: handleSubmit_def trim_def js_of_def is_js_whitespace_def)

subsection \<open>sendMessage, handleSend and what is drawn\<close>

lemma sendMessage_Inr_iff:
  "sendMessage fetch question = Inr response \<longleftrightarrow> fetch question = HttpOk (Some response)"
  by (simp add: sendMessage_def split: fetch_result.splits option.splits)

lemma sendMessage_fails:
  "fetch question = NetworkError \<or> (\<exists>d. fetch question = HttpError d) \<or>
   fetch question = HttpOk None \<Longrightarrow>
     \<exists>e. sendMessage fetch question = Inl e"
  by (auto simp: sendMessage_def)

lemma settled_id: "msg_id (settled lid r) = lid"
  by (simp add: settled_def assistantMessage_def errorMessage_def split: sum.splits)

lemma settled_Inl:
  "settled lid (Inl e) =
     \<lparr>msg_id = lid, role = Assistant,
      content = js_of ''Gagal mengirim pertanyaan. Silakan coba lagi.'',
      msg_sources = None, isLoading = None, isError = Some True\<rparr>"
  by (simp add: settled_def errorMessage_def)

lemma settled_Inr:
  "settled lid (Inr response) =
     \<lparr>msg_id = lid, role = Assistant, content = answer response,
      msg_sources = Some (sources response), isLoading = None, isError = None\<rparr>"
  by (simp add: settled_def assistantMessage_def)

lemma MessageBubble_error:
  "MessageBubble
     \<lparr>msg_id = lid, role = Assistant, content = c,
      msg_sources = None, isLoading = None, isError = Some True\<rparr> = ErrorBubble c"
  by (simp add: MessageBubble_def)

lemma MessageBubble_answer:
  "MessageBubble
     \<lparr>msg_id = lid, role = Assistant, content = c,
      msg_sources = Some srcs, isLoading = None, isError = None\<rparr> = AnswerBubble c (Some srcs)"
  by (simp add: MessageBubble_def)

lemma handleSend_messages:
  "messages (handleSend fetch uid lid question st) =
     map (\<lambda>msg. if msg_id msg = lid then settled lid (sendMessage fetch question) else msg)
       (messages st @ [userMessage uid question]) @
     [settled lid (sendMessage fetch question)]"
  by (simp add: handleSend_def handleSend_settle_def handleSend_request_def loadingMessage_def)

lemma handleSend_last:
  "last (messages (handleSend fetch uid lid question st)) =
     settled lid (sendMessage fetch question)"
  unfolding handleSend_messages by (rule last_snoc)

lemma handleSend_length:
  "length (messages (handleSend fetch uid lid question st)) = length (messages st) + 2"
  unfolding handleSend_messages by simp

lemma handleSend_settle_nth:
  "i < length (messages st) \<Longrightarrow>
     messages (handleSend_settle lid r st) ! i =
       (if msg_id (messages st ! i) = lid then settled lid r else messages st ! i)"
  by (simp add: handleSend_settle_def)

lemma ChatWindow_last:
  "msgs \<noteq> [] \<Longrightarrow>
     ChatWindow msgs = Bubbles (map MessageBubble (butlast msgs) @ [MessageBubble (last msgs)])"
proof -
  assume ne: "msgs \<noteq> []"
  have "map MessageBubble msgs = map MessageBubble (butlast msgs @ [last msgs])"
    by (simp only: append_butlast_last_id[OF ne])
  also have "\<dots> = map MessageBubble (butlast msgs) @ [MessageBubble (last msgs)]"
    by (simp only: map_append list.map)
  finally have m: "map MessageBubble msgs =
      map MessageBubble (butlast msgs) @ [MessageBubble (last msgs)]" .
  have "ChatWindow msgs = Bubbles (map MessageBubble msgs)"
    using ne by (simp add: ChatWindow_def)
  then show ?thesis by (simp only: m)
qed

lemma handleSend_nonempty: "messages (handleSend fetch uid lid question st) \<noteq> []"
  unfolding handleSend_messages by simp

text \<open>
  C7. A failed chat request can be told from an answer. \<open>sendMessage\<close> throws when the
  network fails, when the response is not ok and when the body of an ok response cannot
  be read; it returns the response of an ok request otherwise. When it throws,
  \<open>handleSend\<close> leaves as the last message of the list the assistant message with
  \<open>isError\<close> set and the fixed error text (the settling update stores it wherever the
  placeholder's identifier is), and \<open>ChatWindow\<close> draws it as the error bubble. When it
  returns a response, that message holds the answer and the sources of the response and
  is drawn as the answer bubble with them. An error bubble is never an answer bubble.
\<close>

theorem failure_distinguishable:
  "((fetch question = NetworkError \<or> (\<exists>d. fetch question = HttpError d) \<or>
     fetch question = HttpOk None) \<longrightarrow>
      (\<exists>e. sendMessage fetch question = Inl e)) \<and>
   (\<forall>response. fetch question = HttpOk (Some response) \<longrightarrow>
      sendMessage fetch question = Inr response) \<and>
   (\<forall>e. sendMessage fetch question = Inl e \<longrightarrow>
      last (messages (handleSend fetch uid lid question st)) =
        \<lparr>msg_id = lid, role = Assistant,
         content = js_of ''Gagal mengirim pertanyaan. Silakan coba lagi.'',
         msg_sources = None, isLoading = None, isError = Some True\<rparr> \<and>
      length (messages (handleSend fetch uid lid question st)) = length (messages st) + 2 \<and>
      MessageBubble (last (messages (handleSend fetch uid lid question st))) =
        ErrorBubble (js_of ''Gagal mengirim pertanyaan. Silakan coba lagi.'') \<and>
      ChatWindow (messages (handleSend fetch uid lid question st)) =
        Bubbles (map MessageBubble (butlast (messages (handleSend fetch uid lid question st))) @
                 [ErrorBubble (js_of ''Gagal mengirim pertanyaan. Silakan coba lagi.'')]) \<and>
      (\<forall>i < length (messages st').
         msg_id (messages st' ! i) = lid \<longrightarrow>
           messages (handleSend_settle lid (sendMessage fetch question) st') ! i =
             \<lparr>msg_id = lid, role = Assistant,
              content = js_of ''Gagal mengirim pertanyaan. Silakan coba lagi.'',
              msg_sources = None, isLoading = None, isError = Some True\<rparr>) \<and>
      role (settled lid (sendMessage fetch question)) = Assistant \<and>
      isError (settled lid (sendMessage fetch question)) = Some True \<and>
      content (settled lid (sendMessage fetch question)) =
        js_of ''Gagal mengirim pertanyaan. Silakan coba lagi.'' \<and>
      MessageBubble (settled lid (sendMessage fetch question)) =
        ErrorBubble (js_of ''Gagal mengirim pertanyaan. Silakan coba lagi.'')) \<and>
   (\<forall>response. sendMessage fetch question = Inr response \<longrightarrow>
      fetch question = HttpOk (Some response) \<and>
      last (messages (handleSend fetch uid lid question st)) =
        \<lparr>msg_id = lid, role = Assistant, content = answer response,
         msg_sources = Some (sources response), isLoading = None, isError = None\<rparr> \<and>
      length (messages (handleSend fetch uid lid question st)) = length (messages st) + 2 \<and>
      MessageBubble (last (messages (handleSend fetch uid lid question st))) =
        AnswerBubble (answer response) (Some (sources response)) \<and>
      ChatWindow (messages (handleSend fetch uid lid question st)) =
        Bubbles (map MessageBubble (butlast (messages (handleSend fetch uid lid question st))) @
                 [AnswerBubble (answer response) (Some (sources response))]) \<and>
      (\<forall>i < length (messages st').
         msg_id (messages st' ! i) = lid \<longrightarrow>
           messages (handleSend_settle lid (sendMessage fetch question) st') ! i =
             \<lparr>msg_id = lid, role = Assistant, content = answer response,
              msg_sources = Some (sources response), isLoading = None, isError = None\<rparr>) \<and>
      isError (settled lid (sendMessage fetch question)) = None \<and>
      MessageBubble (settled lid (sendMessage fetch question)) =
        AnswerBubble (answer response) (Some (sources response))) \<and>
   (\<forall>e response. MessageBubble (settled lid (Inl e)) \<noteq> MessageBubble (settled lid (Inr response)))"
proof (intro conjI allI impI)
  assume "fetch question = NetworkError \<or> (\<exists>d. fetch question = HttpError d) \<or>
     fetch question = HttpOk None"
  then show "\<exists>e. sendMessage fetch question = Inl e" by (rule sendMessage_fails)
next
  fix response assume "fetch question = HttpOk (Some response)"
  then show "sendMessage fetch question = Inr response" by (simp only: sendMessage_Inr_iff)
next
  fix e assume e: "sendMessage fetch question = Inl e"
  let ?m = "\<lparr>msg_id = lid, role = Assistant,
         content = js_of ''Gagal mengirim pertanyaan. Silakan coba lagi.'',
         msg_sources = None, isLoading = None, isError = Some True\<rparr>"
  have s: "settled lid (sendMessage fetch question) = ?m"
    unfolding e by (rule settled_Inl)
  show l: "last (messages (handleSend fetch uid lid question st)) = ?m"
    unfolding handleSend_last by (rule s)
  show "length (messages (handleSend fetch uid lid question st)) = length (messages st) + 2"
    by (rule handleSend_length)
  show "MessageBubble (last (messages (handleSend fetch uid lid question st))) =
        ErrorBubble (js_of ''Gagal mengirim pertanyaan. Silakan coba lagi.'')"
    unfolding l by (rule MessageBubble_error)
  show "ChatWindow (messages (handleSend fetch uid lid question st)) =
        Bubbles (map MessageBubble (butlast (messages (handleSend fetch uid lid question st))) @
                 [ErrorBubble (js_of ''Gagal mengirim pertanyaan. Silakan coba lagi.'')])"
    using ChatWindow_last[OF handleSend_nonempty, of fetch uid lid question st]
    unfolding l MessageBubble_error .
  show "role (settled lid (sendMessage fetch question)) = Assistant"
    unfolding s by simp
  show "isError (settled lid (sendMessage fetch question)) = Some True"
    unfolding s by simp
  show "content (settled lid (sendMessage fetch question)) =
        js_of ''Gagal mengirim pertanyaan. Silakan coba lagi.''"
    unfolding s by simp
  show "MessageBubble (settled lid (sendMessage fetch question)) =
        ErrorBubble (js_of ''Gagal mengirim pertanyaan. Silakan coba lagi.'')"
    unfolding s by (rule MessageBubble_error)
  fix i assume "i < length (messages st')" "msg_id (messages st' ! i) = lid"
  then show "messages (handleSend_settle lid (sendMessage fetch question) st') ! i = ?m"
    unfolding s[symmetric] by (simp add: handleSend_settle_nth)
next
  fix response assume r: "sendMessage fetch question = Inr response"
  let ?m = "\<lparr>msg_id = lid, role = Assistant, content = answer response,
         msg_sources = Some (sources response), isLoading = None, isError = None\<rparr>"
  have s: "settled lid (sendMessage fetch question) = ?m"
    unfolding r by (rule settled_Inr)
  show "fetch question = HttpOk (Some response)"
    using r by (simp only: sendMessage_Inr_iff)
  show l: "last (messages (handleSend fetch uid lid question st)) = ?m"
    unfolding handleSend_last by (rule s)
  show "length (messages (handleSend fetch uid lid question st)) = length (messages st) + 2"
    by (rule handleSend_length)
  show "MessageBubble (last (messages (handleSend fetch uid lid question st))) =
        AnswerBubble (answer response) (Some (sources response))"
    unfolding l by (rule MessageBubble_answer)
  show "ChatWindow (messages (handleSend fetch uid lid question st)) =
        Bubbles (map MessageBubble (butlast (messages (handleSend fetch uid lid question st))) @
                 [AnswerBubble (answer response) (Some (sources response))])"
    using ChatWindow_last[OF handleSend_nonempty, of fetch uid lid question st]
    unfolding l MessageBubble_answer .
  show "isError (settled lid (sendMessage fetch question)) = None"
    unfolding s by simp
  show "MessageBubble (settled lid (sendMessage fetch question)) =
        AnswerBubble (answer response) (Some (sources response))"
    unfolding s by (rule MessageBubble_answer)
  fix i assume "i < length (messages st')" "msg_id (messages st' ! i) = lid"
  then show "messages (handleSend_settle lid (sendMessage fetch question) st') ! i = ?m"
    unfolding s[symmetric] by (simp add: handleSend_settle_nth)
next
  fix e response
  show "MessageBubble (settled lid (Inl e)) \<noteq> MessageBubble (settled lid (Inr response))"
    unfolding settled_Inl settled_Inr MessageBubble_error MessageBubble_answer by simp
qed

theorem failure_distinguishable_witness:
  "ChatWindow (messages (handleSend (\<lambda>q. HttpError None) (js_of ''u1'') (js_of ''a1'') (js_of ''apa'')
      \<lparr>messages = [], loading = False\<rparr>)) =
     Bubbles [UserBubble (js_of ''apa''),
              ErrorBubble (js_of ''Gagal mengirim pertanyaan. Silakan coba lagi.'')] \<and>
   ChatWindow (messages (handleSend
      (\<lambda>q. HttpOk (Some \<lparr>answer = js_of ''Ya'',
          sources = [\<lparr>document = js_of ''Buku.pdf'', page = None,
                      content_snippet = js_of ''Pasal 58''\<rparr>],
          model = js_of ''m''\<rparr>))
      (js_of ''u1'') (js_of ''a1'') (js_of ''apa'') \<lparr>messages = [], loading = False\<rparr>)) =
     Bubbles [UserBubble (js_of ''apa''),
              AnswerBubble (js_of ''Ya'')
                (Some [\<lparr>document = js_of ''Buku.pdf'', page = None,
                         content_snippet = js_of ''Pasal 58''\<rparr>])]"
proof -
  let ?r = "\<lparr>answer = js_of ''Ya'',
          sources = [\<lparr>document = js_of ''Buku.pdf'', page = None,
                      content_snippet = js_of ''Pasal 58''\<rparr>],
          model = js_of ''m''\<rparr>"
  let ?st = "\<lparr>messages = [], loading = False\<rparr>"
  have 1: "sendMessage (\<lambda>q. HttpError None) (js_of ''apa'') =
      Inl (Error (js_of ''Gagal mengirim pertanyaan''))"
    by (simp add: sendMessage_def)
  have 2: "sendMessage (\<lambda>q. HttpOk (Some ?r)) (js_of ''apa'') = Inr ?r"
    by (simp add: sendMessage_def)
  have b1: "butlast (messages (handleSend (\<lambda>q. HttpError None) (js_of ''u1'') (js_of ''a1'')
      (js_of ''apa'') ?st)) = [userMessage (js_of ''u1'') (js_of ''apa'')]"
    unfolding handleSend_messages by (simp add: userMessage_def js_of_def)
  have b2: "butlast (messages (handleSend (\<lambda>q. HttpOk (Some ?r)) (js_of ''u1'') (js_of ''a1'')
      (js_of ''apa'') ?st)) = [userMessage (js_of ''u1'') (js_of ''apa'')]"
    unfolding handleSend_messages by (simp add: userMessage_def js_of_def)
  have u: "MessageBubble (userMessage (js_of ''u1'') (js_of ''apa'')) = UserBubble (js_of ''apa'')"
    by (simp add: MessageBubble_def userMessage_def)
  show ?thesis
    using failure_distinguishable [of "\<lambda>q. HttpError None" "js_of ''apa''" "js_of ''u1''"
        "js_of ''a1''" ?st ?st]
      failure_distinguishable [of "\<lambda>q. HttpOk (Some ?r)" "js_of ''apa''" "js_of ''u1''"
        "js_of ''a1''" ?st ?st]
    unfolding 1 2 b1 b2 by (simp add: u)
qed

subsection \<open>The message list\<close>

text \<open>
  C10. A question sent through \<open>handleSend\<close> appends exactly two messages: the user
  message, with the question as its content, and then the assistant placeholder with empty
  content and \<open>isLoading\<close> set, which is drawn as the typing indicator. When the request
  settles, with a response or with an error, the update keeps the length and the
  identifiers of the list in their order, puts the settled message (the answer with its
  sources, or the error message) wherever the identifier is the placeholder's and leaves
  every other message as it is. With a placeholder identifier that is fresh, the whole
  call turns the list into the old list, the user message and the settled message.
\<close>

theorem handleSend_frame:
  "messages (handleSend_request uid lid question st) =
     messages st @
       [\<lparr>msg_id = uid, role = User, content = question,
         msg_sources = None, isLoading = None, isError = None\<rparr>,
        \<lparr>msg_id = lid, role = Assistant, content = [],
         msg_sources = None, isLoading = Some True, isError = None\<rparr>] \<and>
   messages (handleSend_request uid lid question st) =
     messages st @ [userMessage uid question, loadingMessage lid] \<and>
   MessageBubble (loadingMessage lid) = LoadingBubble \<and>
   length (messages (handleSend_request uid lid question st)) = length (messages st) + 2 \<and>
   msg_id (loadingMessage lid) = lid \<and>
   length (messages (handleSend_settle lid r st')) = length (messages st') \<and>
   map msg_id (messages (handleSend_settle lid r st')) = map msg_id (messages st') \<and>
   (\<forall>i < length (messages st').
      messages (handleSend_settle lid r st') ! i =
        (if msg_id (messages st' ! i) = lid then settled lid r else messages st' ! i)) \<and>
   (\<forall>e. settled lid (Inl e) =
      \<lparr>msg_id = lid, role = Assistant,
       content = js_of ''Gagal mengirim pertanyaan. Silakan coba lagi.'',
       msg_sources = None, isLoading = None, isError = Some True\<rparr>) \<and>
   (\<forall>response. settled lid (Inr response) =
      \<lparr>msg_id = lid, role = Assistant, content = answer response,
       msg_sources = Some (sources response), isLoading = None, isError = None\<rparr>) \<and>
   (uid \<noteq> lid \<and> lid \<notin> msg_id ` set (messages st) \<longrightarrow>
      messages (handleSend fetch uid lid question st) =
        messages st @
          [\<lparr>msg_id = uid, role = User, content = question,
            msg_sources = None, isLoading = None, isError = None\<rparr>,
           settled lid (sendMessage fetch question)])"
proof -
  have a: "map msg_id (messages (handleSend_settle lid r st')) = map msg_id (messages st')"
    by (simp add: handleSend_settle_def settled_id)
  have b: "map (\<lambda>msg. if msg_id msg = lid then settled lid x else msg) ms = ms"
    if "lid \<notin> msg_id ` set ms" for ms x
    using that by (induction ms) auto
  have c: "messages (handleSend fetch uid lid question st) =
        messages st @
          [\<lparr>msg_id = uid, role = User, content = question,
            msg_sources = None, isLoading = None, isError = None\<rparr>,
           settled lid (sendMessage fetch question)]"
    if "uid \<noteq> lid" "lid \<notin> msg_id ` set (messages st)"
    using that b[of "messages st"]
    unfolding handleSend_messages by (simp add: userMessage_def)
  have d: "MessageBubble (loadingMessage lid) = LoadingBubble"
    by (simp add: MessageBubble_def loadingMessage_def)
  have e: "messages (handleSend_request uid lid question st) =
     messages st @ [userMessage uid question, loadingMessage lid]"
    by (simp add: handleSend_request_def)
  have f: "length (messages (handleSend_settle lid r st')) = length (messages st')"
    by (simp add: handleSend_settle_def)
  have g: "\<forall>i < length (messages st').
      messages (handleSend_settle lid r st') ! i =
        (if msg_id (messages st' ! i) = lid then settled lid r else messages st' ! i)"
    by (simp add: handleSend_settle_nth)
  have h: "msg_id (loadingMessage lid) = lid" by (simp add: loadingMessage_def)
  have u: "userMessage uid question = \<lparr>msg_id = uid, role = User, content = question,
         msg_sources = None, isLoading = None, isError = None\<rparr>"
    by (simp add: userMessage_def)
  have l: "loadingMessage lid = \<lparr>msg_id = lid, role = Assistant, content = [],
         msg_sources = None, isLoading = Some True, isError = None\<rparr>"
    by (simp add: loadingMessage_def)
  show ?thesis
    using a c d f g h settled_Inl[of lid] settled_Inr[of lid]
    unfolding e u l by simp
qed

theorem handleSend_frame_witness:
  "messages (handleSend (\<lambda>q. HttpError None) (js_of ''u1'') (js_of ''a1'') (js_of ''apa'')
      \<lparr>messages = [userMessage (js_of ''u0'') (js_of ''halo''), loadingMessage (js_of ''a0'')],
       loading = True\<rparr>) =
   [userMessage (js_of ''u0'') (js_of ''halo''), loadingMessage (js_of ''a0''),
    \<lparr>msg_id = js_of ''u1'', role = User, content = js_of ''apa'',
     msg_sources = None, isLoading = None, isError = None\<rparr>,
    \<lparr>msg_id = js_of ''a1'', role = Assistant,
     content = js_of ''Gagal mengirim pertanyaan. Silakan coba lagi.'',
     msg_sources = None, isLoading = None, isError = Some True\<rparr>]"
  using handleSend_frame [of "js_of ''u1''" "js_of ''a1''" "js_of ''apa''"
      "\<lparr>messages = [userMessage (js_of ''u0'') (js_of ''halo''), loadingMessage (js_of ''a0'')],
        loading = True\<rparr>" "Inl FetchRejected"
      "\<lparr>messages = [], loading = True\<rparr>" "\<lambda>q. HttpError None"]
  by (simp add: userMessage_def loadingMessage_def js_of_def sendMessage_def settled_def
      errorMessage_def)

section \<open>Properties of the pipeline\<close>

subsection \<open>Evaluation\<close>

lemmas pattern_eval =
  strip_def is_space_def article_label_def clause_marker_def is_digit_def digits_value_def
  Let_def

lemmas merger_eval =
  ContinuationMerger_def is_continuation_page_def first_non_empty_line_def classify_def
  is_section_header_def is_upper_def new_block_def absorb_def

lemmas chunker_eval = pipeline_def chunk_block_def emit_def

text \<open>The model on the three concrete scenarios of section 8 of the specification.\<close>

lemma scenario_merge:
  "ContinuationMerger 4
     [\<lparr>index = 7, raw_text = ''...mahasiswa yang telah menyelesaikan''\<rparr>,
      \<lparr>index = 8, raw_text = ''seluruh mata kuliah wajib.''\<rparr>] =
   [\<lparr>primary_page_index = 7,
     block_text = ''...mahasiswa yang telah menyelesaikan seluruh mata kuliah wajib.'',
     merged_from = [8]\<rparr>]"
  by (simp add: merger_eval pattern_eval)

lemma scenario_two_clauses:
  "map (\<lambda>ch. (article_context ch, clause_number ch))
     (fst (chunk_block ''doc.pdf'' None
        \<lparr>primary_page_index = 3,
         block_text = ''Pasal 14 Rencana Studi Semester\<newline>(1) Setiap mahasiswa wajib...\<newline>(2) Batas maksimum SKS...'',
         merged_from = []\<rparr>)) =
   [(Some ''Pasal 14 Rencana Studi Semester'', Some 1),
    (Some ''Pasal 14 Rencana Studi Semester'', Some 2)]"
  by (simp add: chunker_eval pattern_eval)

lemma scenario_no_markers:
  "map (\<lambda>ch. (article_context ch, clause_number ch))
     (fst (chunk_block ''doc.pdf'' None
        \<lparr>primary_page_index = 3,
         block_text = ''Pasal 2 Tujuan\<newline>Peraturan ini bertujuan...'',
         merged_from = []\<rparr>)) =
   [(Some ''Pasal 2 Tujuan'', None)]"
  by (simp add: chunker_eval pattern_eval)

subsection \<open>ContinuationMerger: the pages of a block\<close>

lemma merge_pages_block_pages:
  "concat (map block_pages (merge_pages m b ps)) = block_pages b @ map index ps"
  by (induction ps arbitrary: b) (simp_all add: block_pages_def absorb_def new_block_def)

lemma ContinuationMerger_block_pages:
  "concat (map block_pages (ContinuationMerger m pages)) = map index pages"
  by (cases pages)
     (simp_all add: ContinuationMerger_def merge_pages_block_pages block_pages_def new_block_def)

lemma merge_pages_merged_from:
  "b' \<in> set (merge_pages m b ps) \<Longrightarrow>
     set (merged_from b') \<subseteq>
       set (merged_from b) \<union> index ` {p \<in> set ps. is_continuation_page m p}"
proof (induction ps arbitrary: b)
  case Nil
  then show ?case by simp
next
  case (Cons p ps)
  show ?case
  proof (cases "is_continuation_page m p")
    case True
    with Cons.prems have "b' \<in> set (merge_pages m (absorb b p) ps)" by simp
    from Cons.IH[OF this] True show ?thesis by (auto simp: absorb_def)
  next
    case False
    with Cons.prems consider "b' = b" | "b' \<in> set (merge_pages m (new_block p) ps)" by auto
    then show ?thesis
    proof cases
      case 1
      then show ?thesis by auto
    next
      case 2
      from Cons.IH[OF this] show ?thesis by (auto simp: new_block_def)
    qed
  qed
qed

lemma ContinuationMerger_merged_from:
  "b \<in> set (ContinuationMerger m pages) \<Longrightarrow>
     set (merged_from b) \<subseteq> index ` {p \<in> set (tl pages). is_continuation_page m p}"
proof (cases pages)
  case Nil
  assume "b \<in> set (ContinuationMerger m pages)"
  with Nil show ?thesis by (simp add: ContinuationMerger_def)
next
  case (Cons p ps)
  assume "b \<in> set (ContinuationMerger m pages)"
  with Cons have "b \<in> set (merge_pages m (new_block p) ps)"
    by (simp add: ContinuationMerger_def)
  from merge_pages_merged_from[OF this] Cons show ?thesis by (simp add: new_block_def)
qed

lemma in_concat_infix:
  "xs \<in> set xss \<Longrightarrow> \<exists>ys zs. concat xss = ys @ xs @ zs"
proof -
  assume "xs \<in> set xss"
  then obtain as bs where "xss = as @ xs # bs" by (auto simp: in_set_conv_decomp)
  then have "concat xss = concat as @ xs @ concat bs" by simp
  then show ?thesis by blast
qed

lemma consecutive_append: "consecutive (xs @ ys) \<Longrightarrow> consecutive xs \<and> consecutive ys"
proof (induction xs rule: consecutive.induct)
  case 1
  then show ?case by simp
next
  case (2 x)
  then show ?case by (cases ys) simp_all
next
  case (3 x y zs)
  then show ?case by auto
qed

lemma consecutive_upt: "consecutive (x # xs) \<Longrightarrow> xs = [Suc x ..< Suc x + length xs]"
proof (induction xs arbitrary: x)
  case Nil
  then show ?case by simp
next
  case (Cons y ys)
  from Cons.prems have y: "y = Suc x" and c: "consecutive (y # ys)" by auto
  from Cons.IH[OF c] have ys: "[Suc y ..< Suc y + length ys] = ys" by (rule sym)
  have "[Suc x ..< Suc x + length (y # ys)] = Suc x # [Suc (Suc x) ..< Suc (Suc x) + length ys]"
    by (subst upt_rec) (simp del: upt_Suc)
  also have "\<dots> = y # [Suc y ..< Suc y + length ys]" by (simp only: y)
  also have "\<dots> = y # ys" by (simp only: ys)
  finally show ?case by (rule sym)
qed

text \<open>
  C5, as the claim states it, fails on the merger of the specification. The filtered
  pages keep their indices and have gaps where the filter discarded a page (sections 3
  and 4.2). With page 2 discarded, the continuation pages 1 and 3 are both folded into
  the block of page 0, whose \<open>merged_from\<close> is then 1, 3: the second index is not the
  immediate successor of the first.
\<close>

theorem merged_from_gap_counterexample:
  "map merged_from
     (ContinuationMerger 4
        [\<lparr>index = 0, raw_text = ''Pasal 1 Umum\<newline>(1) Mahasiswa wajib''\<rparr>,
         \<lparr>index = 1, raw_text = ''mengikuti kuliah dan''\<rparr>,
         \<lparr>index = 3, raw_text = ''ujian akhir.''\<rparr>]) = [[1, 3]] \<and>
   \<not> consecutive [1, 3]"
  by (simp add: merger_eval pattern_eval)

text \<open>
  C5, amended. For every block of the \<open>ContinuationMerger\<close>: every index in
  \<open>merged_from\<close> is the index of a page whose first non-empty line was classified as a
  continuation (so the sequence is empty unless a continuation was detected); the primary
  index followed by \<open>merged_from\<close> is an unbroken run of the sequence of filtered page
  indices (the merger absorbs the very next filtered page and skips none); the run is
  strictly increasing when the page indices are; and each index is the immediate successor
  of the one before when the filtered page indices are consecutive, that is, when the
  filter left no gap.
\<close>

theorem merged_from_contiguous:
  "b \<in> set (ContinuationMerger m pages) \<Longrightarrow>
     (set (merged_from b) \<subseteq> index ` {p \<in> set (tl pages). is_continuation_page m p}) \<and>
     (\<exists>before after. map index pages = before @ primary_page_index b # merged_from b @ after) \<and>
     (sorted_wrt (<) (map index pages) \<longrightarrow> sorted_wrt (<) (primary_page_index b # merged_from b)) \<and>
     (consecutive (map index pages) \<longrightarrow>
        merged_from b = [Suc (primary_page_index b) ..<
                         Suc (primary_page_index b) + length (merged_from b)])"
proof -
  assume b: "b \<in> set (ContinuationMerger m pages)"
  then have "block_pages b \<in> set (map block_pages (ContinuationMerger m pages))" by simp
  from in_concat_infix[OF this] obtain ys zs
    where d: "map index pages = ys @ block_pages b @ zs"
    by (auto simp: ContinuationMerger_block_pages)
  have 1: "set (merged_from b) \<subseteq> index ` {p \<in> set (tl pages). is_continuation_page m p}"
    using b by (rule ContinuationMerger_merged_from)
  have 2: "\<exists>before after. map index pages = before @ primary_page_index b # merged_from b @ after"
    using d by (auto simp: block_pages_def)
  have 3: "sorted_wrt (<) (primary_page_index b # merged_from b)"
    if "sorted_wrt (<) (map index pages)"
    using that unfolding d by (simp add: sorted_wrt_append block_pages_def)
  have 4: "merged_from b = [Suc (primary_page_index b) ..<
                         Suc (primary_page_index b) + length (merged_from b)]"
    if "consecutive (map index pages)"
  proof -
    from that have "consecutive (block_pages b)"
      unfolding d using consecutive_append by blast
    then show ?thesis unfolding block_pages_def by (rule consecutive_upt)
  qed
  from 1 2 3 4 show ?thesis by blast
qed

theorem merged_from_contiguous_witness:
  "ContinuationMerger 4
     [\<lparr>index = 7, raw_text = ''...mahasiswa yang telah menyelesaikan''\<rparr>,
      \<lparr>index = 8, raw_text = ''seluruh mata kuliah wajib.''\<rparr>] =
   [\<lparr>primary_page_index = 7,
     block_text = ''...mahasiswa yang telah menyelesaikan seluruh mata kuliah wajib.'',
     merged_from = [8]\<rparr>] \<and>
   sorted_wrt (<) [7, 8 :: nat] \<and> consecutive [7, 8] \<and> [8] = [Suc 7 ..< Suc 7 + length [8 :: nat]]"
proof -
  let ?pages = "[\<lparr>index = 7, raw_text = ''...mahasiswa yang telah menyelesaikan''\<rparr>,
      \<lparr>index = 8, raw_text = ''seluruh mata kuliah wajib.''\<rparr>]"
  let ?b = "\<lparr>primary_page_index = 7,
     block_text = ''...mahasiswa yang telah menyelesaikan seluruh mata kuliah wajib.'',
     merged_from = [8]\<rparr>"
  have e: "ContinuationMerger 4 ?pages = [?b]"
    by (simp add: merger_eval pattern_eval)
  then have mem: "?b \<in> set (ContinuationMerger 4 ?pages)" by simp
  show ?thesis using merged_from_contiguous[OF mem] e by simp
qed

subsection \<open>HierarchicalChunker: chunk texts\<close>

lemma strip_idem: "strip (strip s) = strip s"
  unfolding strip_def by (rule ends_idem)

lemma emit_cases:
  "emit doc b ctx clause seg = [] \<and> strip (join_lines seg) = [] \<or>
   emit doc b ctx clause seg =
     [\<lparr>chunk_text = strip (join_lines seg), article_context = ctx, clause_number = clause,
       chunk_page = primary_page_index b, source_document = doc,
       merged_page_indices = merged_from b\<rparr>] \<and> strip (join_lines seg) \<noteq> []"
  by (simp add: emit_def Let_def)

lemma emit_text: "ch \<in> set (emit doc b ctx clause seg) \<Longrightarrow> strip (chunk_text ch) \<noteq> []"
  using emit_cases[of doc b ctx clause seg] by (auto simp: strip_idem)

lemma split_block_emitted:
  "ch \<in> set (fst (split_block doc b ctx clause seg ls)) \<Longrightarrow>
     \<exists>c cl sg. ch \<in> set (emit doc b c cl sg)"
proof (induction ls arbitrary: ctx clause seg)
  case Nil
  then show ?case by auto
next
  case (Cons l ls)
  show ?case
  proof (cases "article_label l")
    case (Some lab)
    with Cons.prems have
      "ch \<in> set (emit doc b ctx clause seg) \<or> ch \<in> set (fst (split_block doc b (Some lab) None [] ls))"
      by (auto split: prod.splits)
    with Cons.IH show ?thesis by blast
  next
    case None
    show ?thesis
    proof (cases "clause_marker l")
      case (Some nr)
      obtain n rest where nr: "nr = (n, rest)" by (cases nr)
      with Cons.prems None Some have
        "ch \<in> set (emit doc b ctx clause seg) \<or>
         ch \<in> set (fst (split_block doc b ctx (Some n) [rest] ls))"
        by (auto split: prod.splits)
      with Cons.IH show ?thesis by blast
    next
      case N2: None
      with Cons.prems None have "ch \<in> set (fst (split_block doc b ctx clause (seg @ [l]) ls))"
        by simp
      with Cons.IH show ?thesis by blast
    qed
  qed
qed

lemma HierarchicalChunker_emitted:
  "ch \<in> set (fst (HierarchicalChunker doc ctx bs)) \<Longrightarrow>
     \<exists>b \<in> set bs. \<exists>c cl sg. ch \<in> set (emit doc b c cl sg)"
proof (induction bs arbitrary: ctx)
  case Nil
  then show ?case by simp
next
  case (Cons b bs)
  from Cons.prems have
    "ch \<in> set (fst (chunk_block doc ctx b)) \<or>
     ch \<in> set (fst (HierarchicalChunker doc (snd (chunk_block doc ctx b)) bs))"
    by (auto split: prod.splits)
  then show ?case
  proof
    assume "ch \<in> set (fst (chunk_block doc ctx b))"
    then show ?thesis using split_block_emitted[of ch doc b] by (auto simp: chunk_block_def)
  next
    assume "ch \<in> set (fst (HierarchicalChunker doc (snd (chunk_block doc ctx b)) bs))"
    from Cons.IH[OF this] show ?thesis by auto
  qed
qed

text \<open>
  C4. The text of every chunk of the \<open>HierarchicalChunker\<close>, and so of the pipeline, is
  non-empty after trimming; a segment that is empty after trimming yields no chunk.
\<close>

theorem chunk_text_nonempty:
  "(\<forall>ch \<in> set (fst (HierarchicalChunker doc ctx bs)).
      strip (chunk_text ch) \<noteq> [] \<and> chunk_text ch \<noteq> []) \<and>
   (\<forall>ch \<in> set (pipeline m doc pages). strip (chunk_text ch) \<noteq> [] \<and> chunk_text ch \<noteq> []) \<and>
   (strip (join_lines seg) = [] \<longrightarrow> emit doc b ctx clause seg = [])"
proof -
  have s0: "strip [] = []" by (simp add: strip_def)
  have a: "strip (chunk_text ch) \<noteq> [] \<and> chunk_text ch \<noteq> []"
    if "ch \<in> set (fst (HierarchicalChunker doc c bs'))" for ch c bs'
  proof -
    from HierarchicalChunker_emitted[OF that] obtain b' c' cl sg
      where "ch \<in> set (emit doc b' c' cl sg)" by blast
    then have "strip (chunk_text ch) \<noteq> []" by (rule emit_text)
    with s0 show ?thesis by auto
  qed
  have b: "emit doc b ctx clause seg = []" if "strip (join_lines seg) = []"
    using that by (simp add: emit_def)
  from a b show ?thesis unfolding pipeline_def by blast
qed

theorem chunk_text_nonempty_witness:
  "map (\<lambda>ch. (clause_number ch, chunk_text ch))
     (pipeline 4 ''doc.pdf''
       [\<lparr>index = 3, raw_text = ''Pasal 14 Rencana Studi Semester\<newline>(1) Setiap mahasiswa wajib...\<newline>(2)  \<newline>(3) Batas maksimum SKS...''\<rparr>]) =
     [(Some 1, ''Setiap mahasiswa wajib...''), (Some 3, ''Batas maksimum SKS...'')] \<and>
   list_all (\<lambda>ch. strip (chunk_text ch) \<noteq> [])
     (pipeline 4 ''doc.pdf''
       [\<lparr>index = 3, raw_text = ''Pasal 14 Rencana Studi Semester\<newline>(1) Setiap mahasiswa wajib...\<newline>(2)  \<newline>(3) Batas maksimum SKS...''\<rparr>]) \<and>
   strip (join_lines [''  '']) = [] \<and>
   emit ''doc.pdf'' \<lparr>primary_page_index = 3, block_text = [], merged_from = []\<rparr>
     None (Some 2) [''  ''] = []"
proof -
  let ?pages = "[\<lparr>index = 3, raw_text = ''Pasal 14 Rencana Studi Semester\<newline>(1) Setiap mahasiswa wajib...\<newline>(2)  \<newline>(3) Batas maksimum SKS...''\<rparr>]"
  have e: "map (\<lambda>ch. (clause_number ch, chunk_text ch)) (pipeline 4 ''doc.pdf'' ?pages) =
     [(Some 1, ''Setiap mahasiswa wajib...''), (Some 3, ''Batas maksimum SKS...'')]"
    by (simp add: chunker_eval merger_eval pattern_eval)
  show ?thesis
    using chunk_text_nonempty[of "''doc.pdf''" None "[]" 4 ?pages "[''  '']"
        "\<lparr>primary_page_index = 3, block_text = [], merged_from = []\<rparr>" "Some 2"]
      e by (simp add: list_all_iff pattern_eval)
qed

end
